theory Spec2Isabelle
  imports Main "HOL-Library.Char_ord" "HOL-Library.List_Lexorder" "HOL-Library.Multiset"
    "HOL-Library.Sublist"
begin

section \<open>Strings and paths\<close>

text \<open>
  The program is \<^verbatim>\<open>src/core/markdown_generator.py\<close>. Python strings are modelled as
  \<^typ>\<open>string\<close>, a file's content as the list of its bytes. A path is the list of the
  components of its absolute, normalised form (\<^verbatim>\<open>/home/u/proj\<close> is
  \<open>[''home'', ''u'', ''proj'']\<close>), as \<^verbatim>\<open>os.path.abspath\<close> computes it on POSIX; the
  functions of \<^verbatim>\<open>os.path\<close>, \<^verbatim>\<open>fnmatch\<close> and the codec that the program calls are
  modelled here from the standard library.
\<close>

type_synonym path = "string list"

definition slash :: char where
  "slash = CHR ''/''"

definition backslash :: char where
  "backslash = CHR 0x5C"

text \<open>\<^verbatim>\<open>s.startswith(p)\<close> and \<^verbatim>\<open>s.endswith(p)\<close>.\<close>

definition startswith :: "string \<Rightarrow> string \<Rightarrow> bool" where
  "startswith s p = (take (length p) s = p)"

definition endswith :: "string \<Rightarrow> string \<Rightarrow> bool" where
  "endswith s p = (length p \<le> length s \<and> drop (length s - length p) s = p)"

text \<open>\<^verbatim>\<open>s.rstrip("/")\<close>: every trailing separator is removed.\<close>

definition rstrip_slash :: "string \<Rightarrow> string" where
  "rstrip_slash s = rev (dropWhile (\<lambda>c. c = slash) (rev s))"

text \<open>\<^verbatim>\<open>s.replace("\\", "/")\<close>.\<close>

definition replace_backslash :: "string \<Rightarrow> string" where
  "replace_backslash s = map (\<lambda>c. if c = backslash then slash else c) s"

text \<open>\<^verbatim>\<open>s.split(sep)\<close> for a one-character separator: the empty string gives \<open>['''']\<close>.\<close>

fun split_on :: "char \<Rightarrow> string \<Rightarrow> string list" where
  "split_on sep [] = [[]]"
| "split_on sep (c # cs) =
     (if c = sep then [] # split_on sep cs
      else (c # hd (split_on sep cs)) # tl (split_on sep cs))"

text \<open>\<^verbatim>\<open>"/".join(parts)\<close>.\<close>

fun join_slash :: "string list \<Rightarrow> string" where
  "join_slash [] = []"
| "join_slash [p] = p"
| "join_slash (p # q # ps) = p @ slash # join_slash (q # ps)"

text \<open>
  \<^verbatim>\<open>os.path.commonprefix\<close> on the two component lists, and \<^verbatim>\<open>os.path.relpath(path, start)\<close>:
  one \<^verbatim>\<open>..\<close> for every component of \<open>start\<close> beyond the common prefix, then the rest of
  \<open>path\<close>; \<^verbatim>\<open>.\<close> when nothing is left.
\<close>

fun commonprefix :: "path \<Rightarrow> path \<Rightarrow> path" where
  "commonprefix (a # as) (b # bs) = (if a = b then a # commonprefix as bs else [])"
| "commonprefix _ _ = []"

definition relpath :: "path \<Rightarrow> path \<Rightarrow> string" where
  "relpath p start =
     (let i = length (commonprefix start p);
          rel_list = replicate (length start - i) ''..'' @ drop i p
      in if rel_list = [] then ''.'' else join_slash rel_list)"

text \<open>The string of an absolute path, as \<^verbatim>\<open>os.path.abspath\<close> returns it.\<close>

definition abspath_str :: "path \<Rightarrow> string" where
  "abspath_str p = (if p = [] then [slash] else concat (map (\<lambda>s. slash # s) p))"

text \<open>
  \<^verbatim>\<open>os.path.abspath(os.path.join(a, b))\<close> for an absolute \<open>a\<close>: an absolute \<open>b\<close> replaces
  \<open>a\<close>; empty components and \<^verbatim>\<open>.\<close> are dropped, \<^verbatim>\<open>..\<close> removes the component
  before it.
\<close>

definition norm_step :: "path \<Rightarrow> string \<Rightarrow> path" where
  "norm_step acc c =
     (if c = [] \<or> c = ''.'' then acc
      else if c = ''..'' then butlast acc
      else acc @ [c])"

definition abs_join :: "path \<Rightarrow> string \<Rightarrow> path" where
  "abs_join a b =
     foldl norm_step (if startswith b [slash] then [] else a) (split_on slash b)"

section \<open>Shell-style wildcard matching\<close>

text \<open>
  \<^verbatim>\<open>fnmatch.fnmatch(name, pat)\<close> on POSIX, where \<^verbatim>\<open>os.path.normcase\<close> is the identity:
  the pattern is translated (\<^verbatim>\<open>fnmatch.translate\<close>) and the whole name must match.
  \<^verbatim>\<open>*\<close> matches any run of characters, the separator included, \<^verbatim>\<open>?\<close> any one
  character, \<^verbatim>\<open>[seq]\<close> one character of a set, \<^verbatim>\<open>[!seq]\<close> one character outside it;
  a \<^verbatim>\<open>[\<close> that no \<^verbatim>\<open>]\<close> closes is an ordinary character.
\<close>

datatype glob_token =
    Star
  | Any_Char
  | Lit char
  | Char_Class bool "char list" "(char \<times> char) list"

text \<open>The text of a bracket expression up to the \<^verbatim>\<open>]\<close> that closes it, and what follows.\<close>

fun until_close :: "string \<Rightarrow> (string \<times> string) option" where
  "until_close [] = None"
| "until_close (c # cs) =
     (if c = CHR '']'' then Some ([], cs)
      else (case until_close cs of
              None \<Rightarrow> None
            | Some (body, rest) \<Rightarrow> Some (c # body, rest)))"

text \<open>
  A leading \<^verbatim>\<open>!\<close> and a \<^verbatim>\<open>]\<close> right after it (or first) belong to the expression and
  do not close it.
\<close>

definition bracket_body :: "string \<Rightarrow> (string \<times> string) option" where
  "bracket_body s =
     (let (neg, s1) = (case s of c # cs \<Rightarrow> if c = CHR ''!'' then ([c], cs) else ([], s) | [] \<Rightarrow> ([], s));
          (lead, s2) = (case s1 of c # cs \<Rightarrow> if c = CHR '']'' then ([c], cs) else ([], s1) | [] \<Rightarrow> ([], s1))
      in case until_close s2 of
           None \<Rightarrow> None
         | Some (body, rest) \<Rightarrow> Some (neg @ lead @ body, rest))"

text \<open>
  The chunks of a bracket expression that holds a hyphen. The first hyphen is looked for
  from \<open>skip\<close> characters into the chunk (one for the first chunk, two for the others,
  whose first character closed the range before); a hyphen found ends the chunk and opens
  a range to the first character of the next.
\<close>

fun find_hyphen :: "string \<Rightarrow> nat option" where
  "find_hyphen [] = None"
| "find_hyphen (c # cs) =
     (if c = CHR ''-'' then Some 0 else map_option Suc (find_hyphen cs))"

lemma find_hyphen_less: "find_hyphen s = Some k \<Longrightarrow> k < length s"
  by (induction s arbitrary: k) (auto split: if_splits)

function chunks_from :: "nat \<Rightarrow> string \<Rightarrow> string list" where
  "chunks_from skip s =
     (case find_hyphen (drop skip s) of
        None \<Rightarrow> [s]
      | Some k \<Rightarrow> take (skip + k) s # chunks_from 2 (drop (skip + k + 1) s))"
  by pat_completeness auto
termination
  by (relation "measure (\<lambda>(skip, s). length s)") (auto dest!: find_hyphen_less)

text \<open>
  Empty ranges are removed from the last chunk to the first: where the character before
  a hyphen is greater than the one after it, both are dropped and the two chunks become
  one.
\<close>

fun remove_empty_ranges :: "string list \<Rightarrow> string list" where
  "remove_empty_ranges [] = []"
| "remove_empty_ranges [a] = [a]"
| "remove_empty_ranges (a # b # rest) =
     (case remove_empty_ranges (b # rest) of
        [] \<Rightarrow> [a]
      | b' # rest' \<Rightarrow>
          if a \<noteq> [] \<and> b' \<noteq> [] \<and> last a > hd b' then (butlast a @ tl b') # rest'
          else a # b' # rest')"

definition bracket_chunks :: "string \<Rightarrow> string list" where
  "bracket_chunks body =
     (let cs = chunks_from 1 body;
          cs' = (if last cs = [] \<and> butlast cs \<noteq> []
                 then butlast (butlast cs) @ [last (butlast cs) @ ''-'']
                 else cs)
      in remove_empty_ranges cs')"

fun chunk_ranges :: "string list \<Rightarrow> (char \<times> char) list" where
  "chunk_ranges (a # b # rest) = (last a, hd b) # chunk_ranges (b # rest)"
| "chunk_ranges _ = []"

definition class_token :: "string \<Rightarrow> glob_token" where
  "class_token stuff =
     (let neg = startswith stuff ''!'';
          body = (if neg then tl stuff else stuff)
      in if CHR ''-'' \<notin> set stuff then Char_Class neg body []
         else let cs = bracket_chunks body in Char_Class neg (concat cs) (chunk_ranges cs))"

lemma until_close_length:
  "until_close s = Some (body, rest) \<Longrightarrow> length rest < length s"
  by (induction s arbitrary: body rest) (auto split: if_splits option.splits)

lemma bracket_body_length:
  "bracket_body s = Some (stuff, rest) \<Longrightarrow> length rest \<le> length s"
  by (auto simp: bracket_body_def Let_def split: list.splits if_splits option.splits
           dest!: until_close_length)

function translate :: "string \<Rightarrow> glob_token list" where
  "translate [] = []"
| "translate (c # cs) =
     (if c = CHR ''*'' then Star # translate (dropWhile (\<lambda>x. x = CHR ''*'') cs)
      else if c = CHR ''?'' then Any_Char # translate cs
      else if c = CHR ''['' then
        (case bracket_body cs of
           None \<Rightarrow> Lit c # translate cs
         | Some (stuff, rest) \<Rightarrow> class_token stuff # translate rest)
      else Lit c # translate cs)"
  by pat_completeness auto
termination
  by (relation "measure length")
     (auto simp: less_Suc_eq_le length_dropWhile_le dest: bracket_body_length)

definition in_class :: "bool \<Rightarrow> char list \<Rightarrow> (char \<times> char) list \<Rightarrow> char \<Rightarrow> bool" where
  "in_class neg lits ranges c =
     ((c \<in> set lits \<or> list_ex (\<lambda>(lo, hi). lo \<le> c \<and> c \<le> hi) ranges) \<noteq> neg)"

fun glob_match :: "glob_token list \<Rightarrow> string \<Rightarrow> bool" where
  "glob_match [] s = (s = [])"
| "glob_match (Star # ts) [] = glob_match ts []"
| "glob_match (Star # ts) (c # cs) = (glob_match ts (c # cs) \<or> glob_match (Star # ts) cs)"
| "glob_match (Any_Char # ts) [] = False"
| "glob_match (Any_Char # ts) (c # cs) = glob_match ts cs"
| "glob_match (Lit d # ts) [] = False"
| "glob_match (Lit d # ts) (c # cs) = (c = d \<and> glob_match ts cs)"
| "glob_match (Char_Class neg lits ranges # ts) [] = False"
| "glob_match (Char_Class neg lits ranges # ts) (c # cs) =
     (in_class neg lits ranges c \<and> glob_match ts cs)"

definition fnmatch :: "string \<Rightarrow> string \<Rightarrow> bool" where
  "fnmatch name pat = glob_match (translate pat) name"

section \<open>The exclusion matcher\<close>

text \<open>
  \<^verbatim>\<open>should_exclude(path, exclude_patterns, root_dir)\<close>. The loop over the patterns
  returns at the first pattern that matches.
\<close>

fun exclude_loop :: "string \<Rightarrow> string list \<Rightarrow> string list \<Rightarrow> bool" where
  "exclude_loop relative_path path_parts [] = False"
| "exclude_loop relative_path path_parts (pattern # rest) =
     (if endswith pattern ''/'' then
        (let dir_pattern = rstrip_slash pattern
         in if dir_pattern \<in> set path_parts then True
            else exclude_loop relative_path path_parts rest)
      else
        (if fnmatch relative_path pattern then True
         else exclude_loop relative_path path_parts rest))"

definition should_exclude :: "path \<Rightarrow> string list \<Rightarrow> path \<Rightarrow> bool" where
  "should_exclude p exclude_patterns root_dir =
     (let relative_path = replace_backslash (relpath p root_dir);
          path_parts = split_on slash relative_path
      in exclude_loop relative_path path_parts exclude_patterns)"

text \<open>
  The test that the body of the loop makes for one pattern: a pattern that ends with the
  separator is looked for among the components of the relative path, any other pattern is
  matched against the whole relative path.
\<close>

definition pattern_matches :: "string \<Rightarrow> path \<Rightarrow> path \<Rightarrow> bool" where
  "pattern_matches pattern p root_dir =
     (let relative_path = replace_backslash (relpath p root_dir)
      in if endswith pattern ''/''
         then rstrip_slash pattern \<in> set (split_on slash relative_path)
         else fnmatch relative_path pattern)"

text \<open>The list that \<^verbatim>\<open>parse_gitignore\<close> starts from.\<close>

definition standard_exclusions :: "string list" where
  "standard_exclusions =
     [''.git/'', ''.venv/'', ''.idea/'', ''.DS_Store'', ''Thumbs.db'', ''node_modules/'',
      ''__pycache__'', ''build/'', ''dist/'', ''.env/'', ''.eggs/'', ''*.egg-info/'', ''*.log'',
      ''generated/'', ''outputs/'', ''androidTest/'', ''test/'']"

text \<open>The names that the directory patterns of the standard list look for.\<close>

definition standard_dir_names :: "string list" where
  "standard_dir_names = map rstrip_slash (filter (\<lambda>pat. endswith pat ''/'') standard_exclusions)"

text \<open>A pattern without wildcard characters, and a name without separators.\<close>

definition no_wildcard :: "string \<Rightarrow> bool" where
  "no_wildcard pat = (\<forall>c \<in> set pat. c \<noteq> CHR ''*'' \<and> c \<noteq> CHR ''?'' \<and> c \<noteq> CHR ''['')"

definition clean_name :: "string \<Rightarrow> bool" where
  "clean_name s = (slash \<notin> set s \<and> backslash \<notin> set s)"

section \<open>The directory tree\<close>

text \<open>
  What the program reads: the entries of a directory, in the order \<^verbatim>\<open>os.listdir\<close> and
  \<^verbatim>\<open>os.walk\<close> deliver them, each a regular file with its bytes or a directory with its
  own entries. Every directory can be listed and every file read; symbolic links are not
  modelled.
\<close>

datatype node =
    File (node_name: string) (file_bytes: "char list")
  | Dir (node_name: string) (dir_entries: "node list")

definition nl :: string where
  "nl = [CHR 0x0A]"

section \<open>The tree walker\<close>

text \<open>
  \<^verbatim>\<open>generate_file_structure(directory, indent, exclude_patterns, root_dir, focus_subdir)\<close>,
  with the entries of \<open>directory\<close> as \<open>listing\<close>. \<open>file_structure_lines\<close> is the loop:
  it gives every piece of text appended to \<^verbatim>\<open>structure\<close> together with the path of the
  entry it is for; \<open>generate_file_structure\<close> is their concatenation.
\<close>

definition focus_path :: "path \<Rightarrow> string option \<Rightarrow> string option" where
  "focus_path root_dir focus_subdir =
     (case focus_subdir of
        None \<Rightarrow> None
      | Some f \<Rightarrow> if f = [] then None else Some (abspath_str (abs_join root_dir f)))"

definition in_focus :: "path \<Rightarrow> string option \<Rightarrow> bool" where
  "in_focus directory abs_focus =
     (case abs_focus of
        None \<Rightarrow> False
      | Some f \<Rightarrow> startswith (abspath_str directory) f)"

function file_structure_lines ::
  "node list \<Rightarrow> path \<Rightarrow> string \<Rightarrow> string list \<Rightarrow> path \<Rightarrow> string option \<Rightarrow> (path \<times> string) list"
where
  "file_structure_lines listing directory indent exclude_patterns root_dir focus_subdir =
     (let abs_focus = focus_path root_dir focus_subdir;
          inFocus = in_focus directory abs_focus
      in concat (map (\<lambda>item.
           let item_path = directory @ [node_name item];
               abs_item_path = abspath_str item_path
           in if should_exclude item_path exclude_patterns root_dir then []
              else (case item of
                      Dir name sub \<Rightarrow>
                        if \<not> inFocus \<and> abs_focus = Some abs_item_path then
                          (item_path, indent @ ''- '' @ name @ ''/'' @ nl)
                          # file_structure_lines sub item_path (indent @ ''  '')
                              exclude_patterns root_dir focus_subdir
                        else if inFocus then
                          (item_path, indent @ ''- '' @ name @ ''/'' @ nl)
                          # file_structure_lines sub item_path (indent @ ''  '')
                              exclude_patterns root_dir focus_subdir
                        else [(item_path, indent @ ''- '' @ name @ ''/'' @ nl)]
                    | File name bytes \<Rightarrow> [(item_path, indent @ ''- '' @ name @ nl)]))
         (sort_key node_name listing)))"
  by pat_completeness auto

lemma size_dir_entries:
  "Dir name sub \<in> set listing \<Longrightarrow> size_list size sub < size_list size listing"
  by (induction listing) auto

termination file_structure_lines
  by (relation "measure (\<lambda>(listing, _). size_list size listing)")
     (auto dest: size_dir_entries)

declare file_structure_lines.simps [simp del]


definition generate_file_structure ::
  "node list \<Rightarrow> path \<Rightarrow> string \<Rightarrow> string list \<Rightarrow> path \<Rightarrow> string option \<Rightarrow> string"
where
  "generate_file_structure listing directory indent exclude_patterns root_dir focus_subdir =
     concat (map snd
       (file_structure_lines listing directory indent exclude_patterns root_dir focus_subdir))"

section \<open>Reading text\<close>

text \<open>
  \<^verbatim>\<open>open(path, "r", encoding="utf-8")\<close> followed by a read: the bytes are decoded as
  UTF-8 and the line ends translated. A decoded string is kept as its valid UTF-8 bytes.
  With no \<^verbatim>\<open>errors\<close> argument the decoder is strict and raises at the first ill-formed
  sequence; with \<^verbatim>\<open>errors="ignore"\<close> the ill-formed bytes are dropped.
\<close>

datatype error = UnicodeDecodeError | FileNotFoundError

datatype errors_mode = Strict | Ignore

text \<open>The length of the sequence a lead byte opens; 0 for a byte that cannot lead.\<close>

definition seq_len :: "nat \<Rightarrow> nat" where
  "seq_len b =
     (if b < 0x80 then 1
      else if 0xC2 \<le> b \<and> b \<le> 0xDF then 2
      else if 0xE0 \<le> b \<and> b \<le> 0xEF then 3
      else if 0xF0 \<le> b \<and> b \<le> 0xF4 then 4
      else 0)"

text \<open>The second byte of a sequence, whose range depends on the lead byte.\<close>

definition second_ok :: "nat \<Rightarrow> nat \<Rightarrow> bool" where
  "second_ok b c =
     (if b = 0xE0 then 0xA0 \<le> c \<and> c \<le> 0xBF
      else if b = 0xED then 0x80 \<le> c \<and> c \<le> 0x9F
      else if b = 0xF0 then 0x90 \<le> c \<and> c \<le> 0xBF
      else if b = 0xF4 then 0x80 \<le> c \<and> c \<le> 0x8F
      else 0x80 \<le> c \<and> c \<le> 0xBF)"

definition is_continuation :: "nat \<Rightarrow> bool" where
  "is_continuation c = (0x80 \<le> c \<and> c \<le> 0xBF)"

text \<open>How many of the bytes after the lead byte continue its sequence correctly.\<close>

definition good_tail :: "nat \<Rightarrow> char list \<Rightarrow> nat" where
  "good_tail b bs =
     (case take (seq_len b - 1) bs of
        [] \<Rightarrow> 0
      | c # cs \<Rightarrow>
          if second_ok b (of_char c)
          then Suc (length (takeWhile (\<lambda>x. is_continuation (of_char x)) cs))
          else 0)"

function utf8_decode :: "errors_mode \<Rightarrow> char list \<Rightarrow> error + string" where
  "utf8_decode mode [] = Inr []"
| "utf8_decode mode (b # bs) =
     (let n = seq_len (of_char b); g = good_tail (of_char b) bs
      in if n \<noteq> 0 \<and> g = n - 1 then
           (case utf8_decode mode (drop g bs) of
              Inl e \<Rightarrow> Inl e
            | Inr text \<Rightarrow> Inr (b # take g bs @ text))
         else if mode = Strict then Inl UnicodeDecodeError
         else if n \<noteq> 0 \<and> g = length bs then Inr []
         else utf8_decode mode (drop g bs))"
  by pat_completeness auto
termination
  by (relation "measure (\<lambda>(mode, bs). length bs)") auto

text \<open>Universal newlines: \<^verbatim>\<open>\r\n\<close> and a lone \<^verbatim>\<open>\r\<close> are read as \<^verbatim>\<open>\n\<close>.\<close>

fun translate_newlines :: "string \<Rightarrow> string" where
  "translate_newlines [] = []"
| "translate_newlines [c] = (if c = CHR 0x0D then nl else [c])"
| "translate_newlines (c # d # cs) =
     (if c = CHR 0x0D \<and> d = CHR 0x0A then CHR 0x0A # translate_newlines cs
      else if c = CHR 0x0D then CHR 0x0A # translate_newlines (d # cs)
      else c # translate_newlines (d # cs))"

definition read_text :: "errors_mode \<Rightarrow> char list \<Rightarrow> error + string" where
  "read_text mode bytes =
     (case utf8_decode mode bytes of
        Inl e \<Rightarrow> Inl e
      | Inr text \<Rightarrow> Inr (translate_newlines text))"

text \<open>\<^verbatim>\<open>os.path.isfile(os.path.join(directory, name))\<close>, and the bytes of that file.\<close>

fun find_file :: "node list \<Rightarrow> string \<Rightarrow> char list option" where
  "find_file [] name = None"
| "find_file (File n bytes # rest) name = (if n = name then Some bytes else find_file rest name)"
| "find_file (Dir n sub # rest) name = (if n = name then None else find_file rest name)"

section \<open>The pattern loader\<close>

text \<open>
  \<^verbatim>\<open>str.strip()\<close> removes white space at both ends (the ASCII white space is modelled),
  and \<^verbatim>\<open>parse_gitignore(directory)\<close> reads \<^verbatim>\<open>.gitignore\<close> with the strict decoder.
\<close>

definition is_space :: "char \<Rightarrow> bool" where
  "is_space c = (of_char c \<in> {0x09, 0x0A, 0x0B, 0x0C, 0x0D, 0x1C, 0x1D, 0x1E, 0x1F, (0x20::nat)})"

definition strip :: "string \<Rightarrow> string" where
  "strip s = rev (dropWhile is_space (rev (dropWhile is_space s)))"

definition gitignore_line :: "string \<Rightarrow> string list" where
  "gitignore_line raw =
     (let line = strip raw
      in if line \<noteq> [] \<and> \<not> startswith line ''#''
         then [if startswith line ''/'' then tl line else line]
         else [])"

definition parse_gitignore :: "node list \<Rightarrow> error + string list" where
  "parse_gitignore listing =
     (case find_file listing ''.gitignore'' of
        None \<Rightarrow> Inr standard_exclusions
      | Some bytes \<Rightarrow>
          (case read_text Strict bytes of
             Inl e \<Rightarrow> Inl e
           | Inr text \<Rightarrow>
               Inr (standard_exclusions @ concat (map gitignore_line (split_on (CHR 0x0A) text)))))"

section \<open>The content aggregator\<close>

text \<open>\<^verbatim>\<open>include_readme(directory)\<close>: the first README found is read with the strict decoder.\<close>

definition include_readme :: "node list \<Rightarrow> error + string" where
  "include_readme listing =
     (case find_file listing ''README.md'' of
        Some bytes \<Rightarrow>
          (case read_text Strict bytes of
             Inl e \<Rightarrow> Inl e
           | Inr text \<Rightarrow> Inr (''### Project README'' @ nl @ nl @ text @ nl @ nl))
      | None \<Rightarrow>
          (case find_file listing ''README.txt'' of
             Some bytes \<Rightarrow>
               (case read_text Strict bytes of
                  Inl e \<Rightarrow> Inl e
                | Inr text \<Rightarrow> Inr (''### Project README'' @ nl @ nl @ text @ nl @ nl))
           | None \<Rightarrow> Inr []))"

text \<open>
  \<^verbatim>\<open>os.walk(directory)\<close>, top down: a directory with its files, then the walk of each of
  its subdirectories. The program never prunes the list of subdirectories, so the walk
  visits all of them.
\<close>

definition files_of :: "node list \<Rightarrow> (string \<times> char list) list" where
  "files_of listing = concat (map (\<lambda>item. case item of File n bytes \<Rightarrow> [(n, bytes)] | Dir n sub \<Rightarrow> []) listing)"

function walk :: "path \<Rightarrow> node list \<Rightarrow> (path \<times> (string \<times> char list) list) list" where
  "walk dirpath listing =
     (dirpath, files_of listing)
     # concat (map (\<lambda>item. case item of
                              Dir name sub \<Rightarrow> walk (dirpath @ [name]) sub
                            | File name bytes \<Rightarrow> [])
         listing)"
  by pat_completeness auto
termination
  by (relation "measure (\<lambda>(dirpath, listing). size_list size listing)")
     (auto dest: size_dir_entries)

declare walk.simps [simp del]

text \<open>The text read with \<^verbatim>\<open>errors="ignore"\<close>, which cannot fail.\<close>

definition read_text_ignore :: "char list \<Rightarrow> string" where
  "read_text_ignore bytes = (case read_text Ignore bytes of Inr text \<Rightarrow> text | Inl e \<Rightarrow> [])"

text \<open>
  \<^verbatim>\<open>include_kotlin_files(directory, exclude_patterns, root_dir)\<close>: \<open>kotlin_blocks\<close> gives each
  block appended to \<^verbatim>\<open>content\<close> with the path of its file.
\<close>

definition kotlin_block :: "string \<Rightarrow> string \<Rightarrow> string" where
  "kotlin_block relative_path file_content =
     ''## File: '' @ relative_path @ nl @ nl @ ''```kotlin'' @ nl @ file_content @ nl @ ''```'' @ nl"

definition kotlin_blocks ::
  "path \<Rightarrow> node list \<Rightarrow> string list \<Rightarrow> path \<Rightarrow> (path \<times> string) list"
where
  "kotlin_blocks directory listing exclude_patterns root_dir =
     concat (map (\<lambda>(root, files).
       if should_exclude root exclude_patterns root_dir then []
       else concat (map (\<lambda>(file, bytes).
              let file_path = root @ [file]
              in if endswith file ''.kt'' \<and> \<not> should_exclude file_path exclude_patterns root_dir
                 then [(file_path,
                        kotlin_block (relpath file_path directory) (read_text_ignore bytes))]
                 else [])
            files))
       (walk directory listing))"

definition include_kotlin_files :: "path \<Rightarrow> node list \<Rightarrow> string list \<Rightarrow> path \<Rightarrow> string" where
  "include_kotlin_files directory listing exclude_patterns root_dir =
     concat (map snd (kotlin_blocks directory listing exclude_patterns root_dir))"

text \<open>\<^verbatim>\<open>include_gradle_and_toml_files(directory)\<close>: no exclusion is consulted.\<close>

definition config_blocks :: "path \<Rightarrow> node list \<Rightarrow> (path \<times> string) list" where
  "config_blocks directory listing =
     concat (map (\<lambda>(root, files).
       concat (map (\<lambda>(file, bytes).
              let file_path = root @ [file]
              in if endswith file ''.gradle.kts'' \<or> file = ''libs.versions.toml''
                 then (let file_content = read_text_ignore bytes;
                           relative_path = relpath file_path directory
                       in if endswith file ''.gradle.kts''
                          then [(file_path, ''### Gradle Script: '' @ relative_path @ nl @ nl
                                  @ ''```kotlin'' @ nl @ file_content @ nl @ ''```'' @ nl)]
                          else [(file_path, ''### Version Catalog: '' @ relative_path @ nl @ nl
                                  @ ''```toml'' @ nl @ file_content @ nl @ ''```'' @ nl)])
                 else [])
            files))
       (walk directory listing))"

definition include_gradle_and_toml_files :: "path \<Rightarrow> node list \<Rightarrow> string" where
  "include_gradle_and_toml_files directory listing =
     concat (map snd (config_blocks directory listing))"

section \<open>The document assembler\<close>

text \<open>
  \<^verbatim>\<open>os.path.isdir\<close> on a path of the scanned tree. The callers pass paths of entries
  shown below \<open>directory\<close>; a path outside it is not part of the model and counts as no
  directory.
\<close>

fun lookup_node :: "node list \<Rightarrow> path \<Rightarrow> node option" where
  "lookup_node listing [] = None"
| "lookup_node listing [n] = find (\<lambda>item. node_name item = n) listing"
| "lookup_node listing (n # m # rest) =
     (case find (\<lambda>item. node_name item = n) listing of
        Some (Dir name sub) \<Rightarrow> lookup_node sub (m # rest)
      | _ \<Rightarrow> None)"

definition isdir :: "path \<Rightarrow> node list \<Rightarrow> path \<Rightarrow> bool" where
  "isdir directory listing p =
     (if p = directory then True
      else if take (length directory) p = directory then
        (case lookup_node listing (drop (length directory) p) of
           Some (Dir name sub) \<Rightarrow> True
         | _ \<Rightarrow> False)
      else False)"

text \<open>The pattern made from one path of \<^verbatim>\<open>user_excluded_paths\<close>.\<close>

definition user_pattern :: "path \<Rightarrow> node list \<Rightarrow> path \<Rightarrow> string" where
  "user_pattern directory listing abs_path =
     (let rel_path = replace_backslash (relpath abs_path directory)
      in if isdir directory listing abs_path then rstrip_slash rel_path @ ''/'' else rel_path)"

text \<open>
  What the program does to the file system it writes to, in order. \<^verbatim>\<open>os.makedirs\<close> with
  an empty name raises \<^verbatim>\<open>FileNotFoundError\<close>; the other failures of the operating
  system are not modelled.
\<close>

datatype io_action = Makedirs string | Write_file string string

text \<open>\<^verbatim>\<open>os.path.dirname\<close> and \<^verbatim>\<open>os.path.join\<close> on strings.\<close>

definition dirname :: "string \<Rightarrow> string" where
  "dirname p =
     (let head = rev (dropWhile (\<lambda>c. c \<noteq> slash) (rev p))
      in if head \<noteq> [] \<and> head \<noteq> replicate (length head) slash then rstrip_slash head else head)"


definition makedirs :: "string \<Rightarrow> error + io_action" where
  "makedirs name = (if name = [] then Inl FileNotFoundError else Inr (Makedirs name))"

definition excludes_document :: "path \<Rightarrow> node list \<Rightarrow> string list \<Rightarrow> string \<Rightarrow> string" where
  "excludes_document directory listing exclude_patterns readme =
     ''# Project Overview'' @ nl @ nl
     @ ''## File Structure'' @ nl @ nl
     @ ''This section outlines the hierarchical structure of the project'' @ [CHR 0x27]
     @ ''s files and directories.'' @ nl @ nl
     @ generate_file_structure listing directory [] exclude_patterns directory (Some ''app'')
     @ nl @ nl
     @ ''## Project Documentation'' @ nl @ nl
     @ readme
     @ ''## Extracted Kotlin Files'' @ nl @ nl
     @ ''Below are the contents of Kotlin files in the project, organized by file paths.'' @ nl @ nl
     @ include_kotlin_files directory listing exclude_patterns directory
     @ ''## Configuration Files'' @ nl @ nl
     @ include_gradle_and_toml_files directory listing"

text \<open>\<^verbatim>\<open>generate_markdown_with_excludes(directory, output_file_path, user_excluded_paths)\<close>.\<close>

definition generate_markdown_with_excludes ::
  "path \<Rightarrow> node list \<Rightarrow> string \<Rightarrow> path list \<Rightarrow> error + io_action list"
where
  "generate_markdown_with_excludes directory listing output_file_path user_excluded_paths =
     (case parse_gitignore listing of
        Inl e \<Rightarrow> Inl e
      | Inr base \<Rightarrow>
          (let exclude_patterns = base @ map (user_pattern directory listing) user_excluded_paths
           in case include_readme listing of
                Inl e \<Rightarrow> Inl e
              | Inr readme \<Rightarrow>
                  (let markdown_content = excludes_document directory listing exclude_patterns readme;
                       output_dir = dirname output_file_path
                   in case makedirs output_dir of
                        Inl e \<Rightarrow> Inl e
                      | Inr made \<Rightarrow> Inr [made, Write_file output_file_path markdown_content])))"




section \<open>Properties of the exclusion matcher\<close>

lemma exclude_loop_iff:
  "exclude_loop rel parts pats =
     (\<exists>pat \<in> set pats. if endswith pat ''/'' then rstrip_slash pat \<in> set parts else fnmatch rel pat)"
  by (induction pats) (auto simp: Let_def)

lemma should_exclude_iff:
  "should_exclude p pats root_dir = (\<exists>pat \<in> set pats. pattern_matches pat p root_dir)"
  by (simp add: should_exclude_def pattern_matches_def Let_def exclude_loop_iff)

text \<open>
  Claim C8. \<open>should_exclude\<close> is true exactly when at least one pattern of the list matches
  the path, and two lists holding the same patterns, in any order, give the same result.
\<close>

theorem should_exclude_order_irrelevant:
  "(should_exclude p pats root_dir \<longleftrightarrow> (\<exists>pat \<in> set pats. pattern_matches pat p root_dir))
   \<and> (mset pats' = mset pats \<longrightarrow> should_exclude p pats' root_dir = should_exclude p pats root_dir)"
proof (intro conjI impI)
  show "should_exclude p pats root_dir \<longleftrightarrow> (\<exists>pat \<in> set pats. pattern_matches pat p root_dir)"
    by (rule should_exclude_iff)
next
  assume "mset pats' = mset pats"
  then have "set pats' = set pats" by (rule mset_eq_setD)
  then show "should_exclude p pats' root_dir = should_exclude p pats root_dir"
    by (simp add: should_exclude_iff)
qed

theorem should_exclude_order_irrelevant_witness:
  "mset [''*.log'', ''build/''] = mset [''build/'', ''*.log'']
   \<and> should_exclude [''proj'', ''a.log''] [''*.log'', ''build/''] [''proj'']
   \<and> should_exclude [''proj'', ''a.log''] [''build/'', ''*.log''] [''proj'']
   \<and> pattern_matches ''*.log'' [''proj'', ''a.log''] [''proj'']
   \<and> \<not> pattern_matches ''build/'' [''proj'', ''a.log''] [''proj'']"
proof -
  have m: "mset [''*.log'', ''build/''] = mset [''build/'', ''*.log'']" by simp
  have a: "should_exclude [''proj'', ''a.log''] [''build/'', ''*.log''] [''proj'']" by code_simp
  have b: "pattern_matches ''*.log'' [''proj'', ''a.log''] [''proj'']" by code_simp
  have c: "\<not> pattern_matches ''build/'' [''proj'', ''a.log''] [''proj'']" by code_simp
  from should_exclude_order_irrelevant
         [of "[''proj'', ''a.log'']" "[''build/'', ''*.log'']" "[''proj'']" "[''*.log'', ''build/'']"]
  show ?thesis using m a b c by blast
qed

lemma endswith_suffix: "endswith s p = suffix p s"
  unfolding endswith_def
  by (metis suffix_def append_eq_conv_conj length_append add_diff_cancel_right'
        suffix_length_le suffix_drop)

lemma commonprefix_append: "commonprefix root_dir (root_dir @ segs) = root_dir"
  by (induction root_dir) auto

lemma relpath_below:
  "relpath (root_dir @ segs) root_dir = (if segs = [] then ''.'' else join_slash segs)"
  by (simp add: relpath_def commonprefix_append Let_def)

lemma split_on_not_Nil: "split_on sep s \<noteq> []"
  by (induction s) auto

lemma split_on_append_sep:
  "split_on sep (a @ sep # b) = split_on sep a @ split_on sep b"
  by (induction a) (auto simp: split_on_not_Nil)

lemma split_on_no_sep: "sep \<notin> set s \<Longrightarrow> split_on sep s = [s]"
  by (induction s) auto

lemma replace_backslash_join:
  "replace_backslash (join_slash segs) = join_slash (map replace_backslash segs)"
  by (induction segs rule: join_slash.induct) (auto simp: replace_backslash_def slash_def backslash_def)

lemma split_join:
  "segs \<noteq> [] \<Longrightarrow> split_on slash (join_slash segs) = concat (map (split_on slash) segs)"
  by (induction segs rule: join_slash.induct) (auto simp: split_on_append_sep)

lemma path_parts_below:
  "segs \<noteq> [] \<Longrightarrow>
   split_on slash (replace_backslash (relpath (root_dir @ segs) root_dir)) =
     concat (map (\<lambda>s. split_on slash (replace_backslash s)) segs)"
  by (simp add: relpath_below replace_backslash_join split_join comp_def)

lemma translate_literal: "no_wildcard pat \<Longrightarrow> translate pat = map Lit pat"
  by (induction pat) (auto simp: no_wildcard_def)

lemma glob_match_lits: "glob_match (map Lit pat) s = (s = pat)"
  by (induction pat arbitrary: s) (case_tac s; auto)+

lemma fnmatch_literal: "no_wildcard pat \<Longrightarrow> fnmatch name pat = (name = pat)"
  by (simp add: fnmatch_def translate_literal glob_match_lits)

lemma glob_match_star_lits: "glob_match (Star # map Lit lit) s = suffix lit s"
  by (induction s) (auto simp: glob_match_lits suffix_Cons)

lemma fnmatch_star_literal:
  "no_wildcard lit \<Longrightarrow> fnmatch name (CHR ''*'' # lit) = endswith name lit"
proof -
  assume a: "no_wildcard lit"
  then have "dropWhile (\<lambda>x. x = CHR ''*'') lit = lit"
    by (cases lit) (auto simp: no_wildcard_def)
  with a show ?thesis
    by (simp add: fnmatch_def translate_literal glob_match_star_lits endswith_suffix)
qed


lemma replace_backslash_clean: "backslash \<notin> set s \<Longrightarrow> replace_backslash s = s"
  by (induction s) (auto simp: replace_backslash_def)

lemma parts_clean: "clean_name s \<Longrightarrow> split_on slash (replace_backslash s) = [s]"
  by (simp add: clean_name_def replace_backslash_clean split_on_no_sep)


lemma pycache_literal: "no_wildcard ''__pycache__''"
  by (simp add: no_wildcard_def)

lemma pycache_nested:
  "\<not> exclude_loop (replace_backslash (join_slash [''src'', ''__pycache__'']))
        (split_on slash (replace_backslash (join_slash [''src'', ''__pycache__''])))
        standard_exclusions"
  by code_simp

lemma pycache_top:
  "exclude_loop (replace_backslash (join_slash [''__pycache__'']))
        (split_on slash (replace_backslash (join_slash [''__pycache__''])))
        standard_exclusions"
  by code_simp

lemma standard_dir_names_eq:
  "standard_dir_names =
     [''.git'', ''.venv'', ''.idea'', ''node_modules'', ''build'', ''dist'', ''.env'', ''.eggs'',
      ''*.egg-info'', ''generated'', ''outputs'', ''androidTest'', ''test'']"
  by code_simp

lemma standard_file_patterns:
  "filter (\<lambda>pat. \<not> endswith pat ''/'') standard_exclusions =
     [''.DS_Store'', ''Thumbs.db'', ''__pycache__'', ''*.log'']"
  by code_simp

lemma should_exclude_standard:
  "should_exclude p standard_exclusions root_dir \<longleftrightarrow>
     (\<exists>d \<in> set standard_dir_names.
         d \<in> set (split_on slash (replace_backslash (relpath p root_dir))))
     \<or> (\<exists>pat \<in> set [''.DS_Store'', ''Thumbs.db'', ''__pycache__'', ''*.log''].
         fnmatch (replace_backslash (relpath p root_dir)) pat)"
proof -
  have "should_exclude p standard_exclusions root_dir \<longleftrightarrow>
     (\<exists>pat \<in> set (filter (\<lambda>pat. endswith pat ''/'') standard_exclusions).
         pattern_matches pat p root_dir)
     \<or> (\<exists>pat \<in> set (filter (\<lambda>pat. \<not> endswith pat ''/'') standard_exclusions).
         pattern_matches pat p root_dir)"
    by (auto simp: should_exclude_iff)
  also have "(\<exists>pat \<in> set (filter (\<lambda>pat. endswith pat ''/'') standard_exclusions).
         pattern_matches pat p root_dir) \<longleftrightarrow>
     (\<exists>d \<in> set standard_dir_names.
         d \<in> set (split_on slash (replace_backslash (relpath p root_dir))))"
    by (auto simp: standard_dir_names_def pattern_matches_def Let_def)
  also have "(\<exists>pat \<in> set (filter (\<lambda>pat. \<not> endswith pat ''/'') standard_exclusions).
         pattern_matches pat p root_dir) \<longleftrightarrow>
     (\<exists>pat \<in> set (filter (\<lambda>pat. \<not> endswith pat ''/'') standard_exclusions).
         fnmatch (replace_backslash (relpath p root_dir)) pat)"
    by (auto simp: pattern_matches_def Let_def)
  finally show ?thesis by (simp only: standard_file_patterns)
qed

lemma join_slash_snoc:
  "join_slash (ps @ [n]) = (if ps = [] then n else join_slash ps @ slash # n)"
  by (induction ps rule: join_slash.induct) auto

lemma suffix_join_last: "suffix sfx n \<Longrightarrow> suffix sfx (join_slash (ps @ [n]))"
  by (auto simp: join_slash_snoc suffix_def)

lemma egg_suffix_facts:
  "\<not> suffix ''.egg-info'' ''.DS_Store''" "\<not> suffix ''.egg-info'' ''Thumbs.db''"
  "\<not> suffix ''.egg-info'' ''__pycache__''"
  "\<not> suffix ''.log'' ''.egg-info''" "\<not> suffix ''.egg-info'' ''.log''"
  by code_simp+

lemma file_pattern_literals:
  "no_wildcard ''.DS_Store''" "no_wildcard ''Thumbs.db''" "no_wildcard ''__pycache__''"
  "no_wildcard ''.log''"
  by (simp_all add: no_wildcard_def)




text \<open>
  Claim C6. With \<^verbatim>\<open>build/\<close> in the list, the path of a regular file named
  \<^verbatim>\<open>build\<close> is excluded like that of a directory: the last component of the path is
  among the components searched, and the file is missing from the listing.
\<close>

theorem build_file_excluded:
  "should_exclude [''proj'', ''build''] [''build/''] [''proj'']
   \<and> generate_file_structure [File ''build'' ''x'', File ''main.kt'' ''y'']
         [''proj''] [] [''build/''] [''proj''] None
       = ''- main.kt'' @ nl"
  by code_simp

text \<open>
  Claim C5, as stated: a pattern without a separator matches only a relative path without
  directories. It fails for \<^verbatim>\<open>*.log\<close>, which matches \<^verbatim>\<open>logs/app.log\<close>.
\<close>

theorem bare_wildcard_crosses_directories:
  "slash \<notin> set ''*.log'' \<and> \<not> endswith ''*.log'' ''/''
   \<and> replace_backslash (relpath [''proj'', ''logs'', ''app.log''] [''proj'']) = ''logs/app.log''
   \<and> pattern_matches ''*.log'' [''proj'', ''logs'', ''app.log''] [''proj'']
   \<and> should_exclude [''proj'', ''logs'', ''app.log''] [''*.log''] [''proj'']"
  by code_simp

text \<open>
  Claim C5, amended: a pattern without a separator and without a wildcard character
  matches a path exactly when the relative path is the pattern itself, so only when the
  relative path has no directory in it.
\<close>

theorem bare_literal_pattern:
  assumes "no_wildcard pat" "slash \<notin> set pat"
  shows "(pattern_matches pat p root_dir \<longleftrightarrow> replace_backslash (relpath p root_dir) = pat)
         \<and> (pattern_matches pat p root_dir \<longrightarrow> slash \<notin> set (replace_backslash (relpath p root_dir)))"
proof -
  from assms(2) have "\<not> endswith pat ''/''"
    by (auto simp: endswith_suffix suffix_def slash_def)
  with assms(1) have "pattern_matches pat p root_dir \<longleftrightarrow> replace_backslash (relpath p root_dir) = pat"
    by (simp add: pattern_matches_def Let_def fnmatch_literal)
  with assms(2) show ?thesis by auto
qed

theorem bare_literal_pattern_witness:
  "no_wildcard ''Thumbs.db'' \<and> slash \<notin> set ''Thumbs.db''
   \<and> pattern_matches ''Thumbs.db'' [''proj'', ''Thumbs.db''] [''proj'']
   \<and> replace_backslash (relpath [''proj'', ''Thumbs.db''] [''proj'']) = ''Thumbs.db''
   \<and> slash \<notin> set (replace_backslash (relpath [''proj'', ''Thumbs.db''] [''proj'']))
   \<and> \<not> pattern_matches ''Thumbs.db'' [''proj'', ''img'', ''Thumbs.db''] [''proj'']"
proof -
  have h: "no_wildcard ''Thumbs.db''" "slash \<notin> set ''Thumbs.db''"
    by code_simp+
  have r: "replace_backslash (relpath [''proj'', ''Thumbs.db''] [''proj'']) = ''Thumbs.db''"
          "replace_backslash (relpath [''proj'', ''img'', ''Thumbs.db''] [''proj'']) \<noteq> ''Thumbs.db''"
    by code_simp+
  from bare_literal_pattern [OF h, of "[''proj'', ''Thumbs.db'']" "[''proj'']"]
       bare_literal_pattern [OF h, of "[''proj'', ''img'', ''Thumbs.db'']" "[''proj'']"] h r
  show ?thesis by simp
qed

text \<open>
  Claim C10. The pattern \<^verbatim>\<open>__pycache__\<close> matches exactly the relative path
  \<^verbatim>\<open>__pycache__\<close>: under every root the standard list excludes the top-level directory
  of that name and does not exclude \<^verbatim>\<open>src/__pycache__\<close>.
\<close>

theorem pycache_only_top_level:
  "(pattern_matches ''__pycache__'' p root_dir
      \<longleftrightarrow> replace_backslash (relpath p root_dir) = ''__pycache__'')
   \<and> \<not> should_exclude (root_dir @ [''src'', ''__pycache__'']) standard_exclusions root_dir
   \<and> should_exclude (root_dir @ [''__pycache__'']) standard_exclusions root_dir"
proof (intro conjI)
  have "\<not> endswith ''__pycache__'' ''/''" by (simp add: endswith_def)
  then show "pattern_matches ''__pycache__'' p root_dir
      \<longleftrightarrow> replace_backslash (relpath p root_dir) = ''__pycache__''"
    by (simp add: pattern_matches_def Let_def fnmatch_literal [OF pycache_literal])
next
  have "relpath (root_dir @ [''src'', ''__pycache__'']) root_dir = join_slash [''src'', ''__pycache__'']"
    by (simp only: relpath_below) simp
  then show "\<not> should_exclude (root_dir @ [''src'', ''__pycache__'']) standard_exclusions root_dir"
    unfolding should_exclude_def Let_def using pycache_nested by simp
next
  have "relpath (root_dir @ [''__pycache__'']) root_dir = join_slash [''__pycache__'']"
    by (simp only: relpath_below) simp
  then show "should_exclude (root_dir @ [''__pycache__'']) standard_exclusions root_dir"
    unfolding should_exclude_def Let_def using pycache_top by simp
qed


text \<open>
  Claim C9. The pattern \<^verbatim>\<open>*.egg-info/\<close> is tested by equality with the components
  of the relative path, so it matches only a component that is the text \<^verbatim>\<open>*.egg-info\<close>;
  under every root, a directory whose name ends with \<^verbatim>\<open>.egg-info\<close> is not excluded by the
  standard list when no component of its path is one of the standard directory names.
\<close>

theorem egg_info_pattern_literal:
  "(pattern_matches ''*.egg-info/'' p root_dir \<longleftrightarrow>
      ''*.egg-info'' \<in> set (split_on slash (replace_backslash (relpath p root_dir))))
   \<and> ((\<forall>s \<in> set (parents @ [n]). clean_name s \<and> s \<notin> set standard_dir_names)
        \<and> endswith n ''.egg-info''
      \<longrightarrow> \<not> should_exclude (root_dir @ parents @ [n]) standard_exclusions root_dir)"
proof (intro conjI impI)
  have "endswith ''*.egg-info/'' ''/''" "rstrip_slash ''*.egg-info/'' = ''*.egg-info''"
    by (simp_all add: endswith_def rstrip_slash_def slash_def)
  then show "pattern_matches ''*.egg-info/'' p root_dir \<longleftrightarrow>
      ''*.egg-info'' \<in> set (split_on slash (replace_backslash (relpath p root_dir)))"
    by (simp add: pattern_matches_def Let_def)
next
  assume a: "(\<forall>s \<in> set (parents @ [n]). clean_name s \<and> s \<notin> set standard_dir_names)
        \<and> endswith n ''.egg-info''"
  let ?segs = "parents @ [n]"
  let ?rel = "replace_backslash (relpath (root_dir @ ?segs) root_dir)"
  from a have clean: "\<forall>s \<in> set ?segs. clean_name s" by blast
  then have m: "map replace_backslash ?segs = ?segs"
    by (intro map_idI) (auto simp: clean_name_def replace_backslash_clean)
  have "relpath (root_dir @ ?segs) root_dir = join_slash ?segs"
    by (simp add: relpath_below)
  then have rel: "?rel = join_slash ?segs"
    using m by (simp only: replace_backslash_join)
  from clean have "concat (map (\<lambda>s. split_on slash (replace_backslash s)) ?segs) = concat (map (\<lambda>s. [s]) ?segs)"
    by (intro arg_cong [where f = concat] map_cong) (auto simp: parts_clean)
  then have parts: "split_on slash ?rel = ?segs"
    using path_parts_below [of ?segs root_dir] by simp
  from a have sfx: "suffix ''.egg-info'' ?rel"
    unfolding rel by (intro suffix_join_last) (simp add: endswith_suffix)
  have no_dir: "\<not> (\<exists>d \<in> set standard_dir_names. d \<in> set (split_on slash ?rel))"
    unfolding parts using a by blast
  have "\<not> fnmatch ?rel pat" if "pat \<in> set [''.DS_Store'', ''Thumbs.db'', ''__pycache__'', ''*.log'']" for pat
  proof -
    from that consider "pat = ''.DS_Store''" | "pat = ''Thumbs.db''" | "pat = ''__pycache__''" | "pat = ''*.log''"
      by auto
    then show ?thesis
    proof cases
      case 4
      have "\<not> suffix ''.log'' ?rel"
        using sfx egg_suffix_facts(4,5) by (meson suffix_same_cases)
      then show ?thesis
        unfolding 4 by (simp add: fnmatch_star_literal [OF file_pattern_literals(4)] endswith_suffix)
    qed (use sfx egg_suffix_facts in \<open>auto simp: fnmatch_literal file_pattern_literals\<close>)
  qed
  with no_dir show "\<not> should_exclude (root_dir @ parents @ [n]) standard_exclusions root_dir"
    unfolding should_exclude_standard by blast
qed

theorem egg_info_pattern_literal_witness:
  "clean_name ''src'' \<and> ''src'' \<notin> set standard_dir_names
   \<and> clean_name ''foo.egg-info'' \<and> ''foo.egg-info'' \<notin> set standard_dir_names
   \<and> endswith ''foo.egg-info'' ''.egg-info''
   \<and> \<not> should_exclude ([''proj''] @ [''src''] @ [''foo.egg-info'']) standard_exclusions [''proj'']
   \<and> \<not> pattern_matches ''*.egg-info/'' [''proj'', ''foo.egg-info''] [''proj'']
   \<and> pattern_matches ''*.egg-info/'' [''proj'', ''*.egg-info''] [''proj'']"
proof -
  have h: "clean_name ''src''" "''src'' \<notin> set standard_dir_names"
          "clean_name ''foo.egg-info''" "''foo.egg-info'' \<notin> set standard_dir_names"
          "endswith ''foo.egg-info'' ''.egg-info''"
    by code_simp+
  then have h': "(\<forall>s \<in> set ([''src''] @ [''foo.egg-info'']). clean_name s \<and> s \<notin> set standard_dir_names)
   \<and> endswith ''foo.egg-info'' ''.egg-info''"
    by simp
  have p: "\<not> pattern_matches ''*.egg-info/'' [''proj'', ''foo.egg-info''] [''proj'']"
         "pattern_matches ''*.egg-info/'' [''proj'', ''*.egg-info''] [''proj'']"
    by code_simp+
  from egg_info_pattern_literal [of p "[''proj'']" "[''src'']" "''foo.egg-info''"] h h' p
  show ?thesis by blast
qed

section \<open>Properties of the tree walker\<close>














section \<open>Properties of the content aggregator\<close>

text \<open>
  Claim C3. The directory \<^verbatim>\<open>__pycache__\<close> is excluded by the standard list, and its own
  file \<^verbatim>\<open>top.kt\<close> is skipped, but the walk goes on into \<^verbatim>\<open>__pycache__/sub\<close>, which no
  pattern matches, and the file \<^verbatim>\<open>A.kt\<close> there contributes a block.
\<close>

theorem excluded_directory_subtree_still_walked:
  "should_exclude [''proj'', ''__pycache__''] standard_exclusions [''proj'']
   \<and> include_kotlin_files [''proj'']
         [Dir ''__pycache__'' [File ''top.kt'' ''val a = 1'', Dir ''sub'' [File ''A.kt'' ''class A'']]]
         standard_exclusions [''proj'']
       = kotlin_block ''__pycache__/sub/A.kt'' ''class A''"
  by code_simp


text \<open>
  Claim C4. A byte that is not UTF-8 in \<^verbatim>\<open>.gitignore\<close> or in the README makes
  \<open>parse_gitignore\<close> and \<open>include_readme\<close> raise, and the generation with them; the same
  byte in a source file is dropped.
\<close>

theorem strict_decoding_aborts:
  "parse_gitignore [File ''.gitignore'' [CHR 0xFF]] = Inl UnicodeDecodeError
   \<and> include_readme [File ''README.md'' [CHR 0xFF]] = Inl UnicodeDecodeError
   \<and> generate_markdown_with_excludes [''proj''] [File ''README.md'' [CHR 0xFF]] ''/out/doc.md'' []
       = Inl UnicodeDecodeError
   \<and> include_kotlin_files [''proj''] [File ''A.kt'' [CHR ''a'', CHR 0xFF]] [] [''proj'']
       = kotlin_block ''A.kt'' ''a''"
  by code_simp


section \<open>Properties of the document assembler\<close>















end
